theory Spec2Isabelle
  imports Main "HOL-Library.List_Lexorder"
begin

section \<open>JavaScript values\<close>

text \<open>
  A JavaScript string is a sequence of UTF-16 code units; comparison, \<open>split\<close>,
  \<open>endsWith\<close> and the default \<open>sort\<close> all work on code units, so a string is
  modelled as the list of its code units. The order on lists is the lexicographic one.
\<close>

type_synonym code_unit = nat
type_synonym jsstring = "code_unit list"

definition ascii :: "string \<Rightarrow> jsstring" where
  "ascii s = map of_char s"

text \<open>The string literals of \<open>script.js\<close> that the modelled functions compare with.\<close>

definition cat_all :: jsstring where
  \<comment> \<open>\<open>'all'\<close>\<close>
  "cat_all = ascii ''all''"

definition cat_other :: jsstring where
  \<comment> \<open>the fallback category, U+5176 U+4ED6\<close>
  "cat_other = [0x5176, 0x4ED6]"

definition cat_whole :: jsstring where
  \<comment> \<open>the label of the static "everything" button, U+5168 U+90E8\<close>
  "cat_whole = [0x5168, 0x90E8]"

definition EMPTY_IMAGE :: jsstring where
  \<comment> \<open>the marker prefix \<open>'__EMPTY_IMAGE__'\<close> of a sentinel's name\<close>
  "EMPTY_IMAGE = ascii ''__EMPTY_IMAGE__''"

definition mode_DSC :: jsstring where
  "mode_DSC = ascii ''DSC''"

definition mode_TGA :: jsstring where
  "mode_TGA = ascii ''TGA''"

definition mode_ALL :: jsstring where
  "mode_ALL = ascii ''ALL''"

definition dot :: code_unit where
  "dot = 46"

definition slash :: code_unit where
  "slash = 47"

text \<open>
  The \<open>category\<close> field holds a string, \<open>null\<close> (after \<open>deleteCategory\<close>) or is
  missing; the code tells the three apart (\<open>cat !== undefined\<close>,
  \<open>img.category === null\<close>, \<open>img.category === ''\<close>).
\<close>

datatype jsval = Undefined | Null | Str jsstring

fun truthy :: "jsval \<Rightarrow> bool" where
  "truthy Undefined = False"
| "truthy Null = False"
| "truthy (Str s) = (s \<noteq> [])"

fun toString :: "jsval \<Rightarrow> jsstring" where
  "toString Undefined = ascii ''undefined''"
| "toString Null = ascii ''null''"
| "toString (Str s) = s"

subsection \<open>Array and string methods\<close>

fun some :: "('a \<Rightarrow> bool) \<Rightarrow> 'a list \<Rightarrow> bool" where
  "some p [] = False"
| "some p (x # xs) = (if p x then True else some p xs)"

fun every :: "('a \<Rightarrow> bool) \<Rightarrow> 'a list \<Rightarrow> bool" where
  "every p [] = True"
| "every p (x # xs) = (if p x then every p xs else False)"

definition arr_includes :: "'a list \<Rightarrow> 'a \<Rightarrow> bool" where
  "arr_includes xs x = some (\<lambda>y. y = x) xs"

text \<open>\<open>[...new Set(xs)]\<close>: the first occurrence of every element, in order.\<close>

fun uniq :: "'a list \<Rightarrow> 'a list" where
  "uniq [] = []"
| "uniq (x # xs) = x # uniq (filter (\<lambda>y. y \<noteq> x) xs)"

definition startsWith :: "jsstring \<Rightarrow> jsstring \<Rightarrow> bool" where
  "startsWith s p = (take (length p) s = p)"

definition endsWith :: "jsstring \<Rightarrow> jsstring \<Rightarrow> bool" where
  "endsWith s t = (length t \<le> length s \<and> drop (length s - length t) s = t)"

text \<open>
  \<open>Array.prototype.sort()\<close> without a comparator: \<open>undefined\<close> elements go last,
  the others are ordered by the code units of their string conversion; the sort is
  stable.
\<close>

definition sort_default :: "jsval list \<Rightarrow> jsval list" where
  "sort_default xs =
     sort_key toString (filter (\<lambda>v. v \<noteq> Undefined) xs) @ filter (\<lambda>v. v = Undefined) xs"

section \<open>Records and application state\<close>

text \<open>
  An image record of the object store. \<open>id'\<close> is the auto-increment key (\<open>None\<close>
  where the code's \<open>img.id != null\<close> guard would fail), \<open>tags\<close> is \<open>None\<close> where
  \<open>!img.tags\<close> holds, and \<open>isEmptyCategory\<close> is the truthiness of the sentinel flag.
\<close>

record image =
  id' :: "nat option"
  name :: jsstring
  category :: jsval
  tags :: "jsstring list option"
  data :: jsstring
  date :: jsstring
  isEmptyCategory :: bool

text \<open>
  The globals of \<open>script.js\<close> (\<open>allImages\<close>, \<open>selectedIds\<close>, \<open>currentFilter\<close>,
  \<open>currentTagFilters\<close>, \<open>currentModeFilter\<close>) together with the object store
  \<open>db\<close>, kept in key order, and its key generator.
\<close>

record state =
  db :: "image list"
  nextKey :: nat
  allImages :: "image list"
  selectedIds :: "nat set"
  currentFilter :: jsstring
  currentTagFilters :: "jsstring list"
  currentModeFilter :: jsstring

definition loadImages :: "state \<Rightarrow> state" where
  "loadImages st = st\<lparr>allImages := db st\<rparr>"

section \<open>Mode classification by name suffix\<close>

text \<open>
  \<open>name.replace(/\.[^/.]+$/, "")\<close>: the match starts at the last dot of the name and
  needs at least one code unit after it, none of them a slash.
\<close>

definition removeFileExtension :: "jsstring \<Rightarrow> jsstring" where
  "removeFileExtension nm =
     (let ext = rev (takeWhile (\<lambda>c. c \<noteq> dot) (rev nm))
      in if dot \<in> set nm \<and> ext \<noteq> [] \<and> slash \<notin> set ext
         then take (length nm - length ext - 1) nm
         else nm)"

text \<open>
  \<open>toUpperCase\<close> is the host's Unicode case mapping; it is the parameter \<open>up\<close> of
  everything that filters by mode.
\<close>

definition hasSuffix :: "(jsstring \<Rightarrow> jsstring) \<Rightarrow> jsstring \<Rightarrow> jsstring \<Rightarrow> bool" where
  "hasSuffix up nm suffix =
     (let baseName = removeFileExtension nm
      in endsWith (up baseName) (up suffix))"

text \<open>A case mapping for concrete runs: the ASCII letters, everything else unchanged.\<close>

definition ascii_upper :: "jsstring \<Rightarrow> jsstring" where
  "ascii_upper s = map (\<lambda>c. if 97 \<le> c \<and> c \<le> 122 then c - 32 else c) s"

section \<open>Filtering and selection\<close>

text \<open>The tag predicate shared by the filter callbacks: every filter tag is on the image.\<close>

definition hasAllTags :: "jsstring list \<Rightarrow> image \<Rightarrow> bool" where
  "hasAllTags filters img =
     (case tags img of
        None \<Rightarrow> False
      | Some ts \<Rightarrow> if ts = [] then False else every (\<lambda>tag. arr_includes ts tag) filters)"

definition isUncategorisedOrOther :: "image \<Rightarrow> bool" where
  "isUncategorisedOrOther img =
     (category img = Null \<or> category img = Str [] \<or> category img = Str cat_other)"

text \<open>The list \<open>filtered\<close> that \<open>renderGallery\<close> maps to cards.\<close>

definition renderGallery_filtered :: "(jsstring \<Rightarrow> jsstring) \<Rightarrow> state \<Rightarrow> image list" where
  "renderGallery_filtered up st =
     (let filtered = allImages st;
          filtered = filter (\<lambda>img. \<not> isEmptyCategory img) filtered;
          filtered =
            (if currentFilter st \<noteq> cat_all
             then (if currentFilter st = cat_other
                   then filter isUncategorisedOrOther filtered
                   else filter (\<lambda>img. category img = Str (currentFilter st)) filtered)
             else filtered);
          filtered =
            (if length (currentTagFilters st) > 0
             then filter (hasAllTags (currentTagFilters st)) filtered
             else filtered);
          filtered =
            (if currentModeFilter st \<noteq> [] \<and> currentModeFilter st \<noteq> mode_ALL
             then filter (\<lambda>img. hasSuffix up (name img) (currentModeFilter st)) filtered
             else filtered)
      in filtered)"

text \<open>The list \<open>visible\<close> of \<open>selectAllVisible\<close>.\<close>

definition selectAllVisible_visible :: "(jsstring \<Rightarrow> jsstring) \<Rightarrow> state \<Rightarrow> image list" where
  "selectAllVisible_visible up st =
     (let visible = allImages st;
          visible = filter (\<lambda>img. \<not> isEmptyCategory img) visible;
          visible =
            (if currentFilter st \<noteq> cat_all
             then (if currentFilter st = cat_other
                   then filter isUncategorisedOrOther visible
                   else filter (\<lambda>img. category img = Str (currentFilter st)) visible)
             else visible);
          visible =
            (if length (currentTagFilters st) > 0
             then filter (hasAllTags (currentTagFilters st)) visible
             else visible);
          visible =
            (if currentModeFilter st \<noteq> [] \<and> currentModeFilter st \<noteq> mode_ALL
             then filter (\<lambda>img. hasSuffix up (name img) (currentModeFilter st)) visible
             else visible)
      in visible)"

text \<open>\<open>visible.forEach(img => { if (img.id != null) selectedIds.add(img.id) })\<close>\<close>

definition addIfId :: "image \<Rightarrow> nat set \<Rightarrow> nat set" where
  "addIfId img s = (case id' img of None \<Rightarrow> s | Some i \<Rightarrow> insert i s)"

definition selectAllVisible :: "(jsstring \<Rightarrow> jsstring) \<Rightarrow> state \<Rightarrow> state" where
  "selectAllVisible up st =
     st\<lparr>selectedIds := fold addIfId (selectAllVisible_visible up st) (selectedIds st)\<rparr>"

definition clearSelection :: "state \<Rightarrow> state" where
  "clearSelection st = st\<lparr>selectedIds := {}\<rparr>"

definition toggleModeFilter :: "state \<Rightarrow> state" where
  "toggleModeFilter st =
     (if currentModeFilter st = mode_DSC then st\<lparr>currentModeFilter := mode_TGA\<rparr>
      else if currentModeFilter st = mode_TGA then st\<lparr>currentModeFilter := mode_ALL\<rparr>
      else st\<lparr>currentModeFilter := mode_DSC\<rparr>)"

text \<open>The ids of a list of records, as far as they have one.\<close>

definition idsOf :: "image list \<Rightarrow> nat set" where
  "idsOf imgs = {i. Some i \<in> set (map id' imgs)}"

text \<open>
  \<open>toggleSelectAll\<close> computes its own \<open>visible\<close>: the fallback category matches
  \<open>null\<close> and \<open>''\<close> only, and the tag filter sits inside the
  \<open>currentFilter !== 'all'\<close> branch.
\<close>

definition toggleSelectAll_visible :: "(jsstring \<Rightarrow> jsstring) \<Rightarrow> state \<Rightarrow> image list" where
  "toggleSelectAll_visible up st =
     (let visible = allImages st;
          visible = filter (\<lambda>img. \<not> isEmptyCategory img) visible;
          visible =
            (if currentFilter st \<noteq> cat_all
             then (let visible =
                         (if currentFilter st = cat_other
                          then filter (\<lambda>img. category img = Null \<or> category img = Str []) visible
                          else filter (\<lambda>img. category img = Str (currentFilter st)) visible)
                   in if length (currentTagFilters st) > 0
                      then filter (hasAllTags (currentTagFilters st)) visible
                      else visible)
             else visible);
          visible =
            (if currentModeFilter st \<noteq> [] \<and> currentModeFilter st \<noteq> mode_ALL
             then filter (\<lambda>img. hasSuffix up (name img) (currentModeFilter st)) visible
             else visible)
      in visible)"

text \<open>\<open>selectedIds.has(img.id)\<close>; the set never holds \<open>undefined\<close>.\<close>

fun has :: "nat set \<Rightarrow> nat option \<Rightarrow> bool" where
  "has s None = False"
| "has s (Some i) = (i \<in> s)"

definition deleteIfSelected :: "image \<Rightarrow> nat set \<Rightarrow> nat set" where
  "deleteIfSelected img s =
     (case id' img of None \<Rightarrow> s | Some i \<Rightarrow> if i \<in> s then s - {i} else s)"

definition addIfNotSelected :: "image \<Rightarrow> nat set \<Rightarrow> nat set" where
  "addIfNotSelected img s =
     (case id' img of None \<Rightarrow> s | Some i \<Rightarrow> if i \<notin> s then insert i s else s)"

definition toggleSelectAll_isFull :: "(jsstring \<Rightarrow> jsstring) \<Rightarrow> state \<Rightarrow> bool" where
  "toggleSelectAll_isFull up st =
     (let visible = toggleSelectAll_visible up st;
          visibleCount = length (filter (\<lambda>img. id' img \<noteq> None) visible);
          selectedVisibleCount = length (filter (\<lambda>img. has (selectedIds st) (id' img)) visible)
      in selectedVisibleCount = visibleCount \<and> visibleCount > 0)"

definition toggleSelectAll :: "(jsstring \<Rightarrow> jsstring) \<Rightarrow> state \<Rightarrow> state" where
  "toggleSelectAll up st =
     (let visible = toggleSelectAll_visible up st
      in if toggleSelectAll_isFull up st
         then st\<lparr>selectedIds := fold deleteIfSelected visible (selectedIds st)\<rparr>
         else st\<lparr>selectedIds := fold addIfNotSelected visible (selectedIds st)\<rparr>)"

section \<open>Saving and importing\<close>

definition checkDuplicateImage :: "state \<Rightarrow> jsstring \<Rightarrow> bool" where
  "checkDuplicateImage st fileName = some (\<lambda>img. name img = fileName) (allImages st)"

text \<open>
  The duplicate check in the words of the specification (\<open>existsByName\<close> "over
  non-sentinel records only"), for comparison with \<open>checkDuplicateImage\<close>.
\<close>

definition existsByName_spec :: "state \<Rightarrow> jsstring \<Rightarrow> bool" where
  "existsByName_spec st fileName =
     some (\<lambda>img. \<not> isEmptyCategory img \<and> name img = fileName) (allImages st)"

text \<open>A file handed to \<open>saveImage\<close>: its name and the data URL that the reader yields.\<close>

record jsfile =
  file_name :: jsstring
  file_data :: jsstring

datatype toast =
    Toast_skipped | Toast_updated | Toast_reserved | Toast_exists | Toast_renamed | Toast_deleted

text \<open>
  The cursor scan of \<open>updateExistingImage\<close>: the first record that matches is rewritten
  and the scan stops; without a match nothing is written.
\<close>

fun updateFirst :: "(image \<Rightarrow> bool) \<Rightarrow> (image \<Rightarrow> image) \<Rightarrow> image list \<Rightarrow> image list option" where
  "updateFirst p f [] = None"
| "updateFirst p f (item # items) =
     (if p item then Some (f item # items)
      else map_option (\<lambda>items'. item # items') (updateFirst p f items))"

definition updateExistingImage :: "jsfile \<Rightarrow> jsstring \<Rightarrow> jsstring \<Rightarrow> state \<Rightarrow> toast option \<times> state" where
  "updateExistingImage f cat now st =
     (case updateFirst (\<lambda>item. name item = file_name f)
             (\<lambda>item. item\<lparr>data := file_data f,
                            category := (if cat \<noteq> [] then Str cat else category item),
                            date := now\<rparr>)
             (db st) of
        None \<Rightarrow> (None, st)
      | Some items \<Rightarrow> (Some Toast_updated, loadImages (st\<lparr>db := items\<rparr>)))"

text \<open>
  \<open>saveImage(file, category)\<close>. \<open>ok\<close> is the answer to the \<open>confirm\<close> dialog, \<open>now\<close>
  the date string. A new record gets the next key of the store and is appended.
\<close>

definition saveImage :: "bool \<Rightarrow> jsstring \<Rightarrow> jsfile \<Rightarrow> jsstring \<Rightarrow> state \<Rightarrow> toast option \<times> state" where
  "saveImage ok now f cat st =
     (if checkDuplicateImage st (file_name f)
      then (if ok then updateExistingImage f cat now st else (Some Toast_skipped, st))
      else (let imageData =
                  \<lparr>id' = Some (nextKey st), name = file_name f,
                   category = Str (if cat \<noteq> [] then cat else []),
                   tags = Some [], data = file_data f, date = now,
                   isEmptyCategory = False\<rparr>
            in (None, loadImages (st\<lparr>db := db st @ [imageData], nextKey := Suc (nextKey st)\<rparr>))))"

text \<open>\<open>s.split(sep)\<close> and \<open>parts.join(sep)\<close> for a separator of one code unit.\<close>

fun split_js :: "code_unit \<Rightarrow> jsstring \<Rightarrow> jsstring list" where
  "split_js sep [] = [[]]"
| "split_js sep (c # cs) =
     (if c = sep then [] # split_js sep cs
      else (case split_js sep cs of [] \<Rightarrow> [[c]] | p # ps \<Rightarrow> (c # p) # ps))"

fun join_js :: "code_unit \<Rightarrow> jsstring list \<Rightarrow> jsstring" where
  "join_js sep [] = []"
| "join_js sep [p] = p"
| "join_js sep (p # q # ps) = p @ sep # join_js sep (q # ps)"

definition imageExtensions :: "jsstring list" where
  "imageExtensions =
     [ascii ''jpg'', ascii ''jpeg'', ascii ''png'', ascii ''gif'', ascii ''bmp'', ascii ''webp'']"

record zipEntry =
  dir :: bool
  base64 :: jsstring

record importStats =
  totalFiles :: nat
  importedFiles :: nat
  skippedFiles :: nat

text \<open>The category and the file name that \<open>handleZipFile\<close> reads off an entry's path.\<close>

definition splitEntryPath :: "jsstring \<Rightarrow> jsstring \<times> jsstring" where
  "splitEntryPath filename =
     (case split_js slash filename of
        p # q # ps \<Rightarrow> (p, join_js slash (q # ps))
      | _ \<Rightarrow> ([], filename))"

text \<open>
  One turn of the loop of \<open>handleZipFile\<close> over the archive's entries. \<open>low\<close> is
  \<open>toLowerCase\<close>, \<open>overwrite\<close> the state of the import dialog's checkbox. The loop
  counts the entry as imported whatever \<open>saveImage\<close> did with it.
\<close>

definition handleZipEntry ::
  "(jsstring \<Rightarrow> jsstring) \<Rightarrow> bool \<Rightarrow> bool \<Rightarrow> jsstring \<Rightarrow> jsstring \<times> zipEntry \<Rightarrow>
   importStats \<times> state \<Rightarrow> importStats \<times> state" where
  "handleZipEntry low overwrite ok now entry acc =
     (let filename = fst entry; zipEntry = snd entry; stats = fst acc; st = snd acc
      in if dir zipEntry \<or> filename = ascii ''tags.json'' then (stats, st)
         else
           (let stats = stats\<lparr>totalFiles := totalFiles stats + 1\<rparr>;
                cat = fst (splitEntryPath filename);
                actualFilename = snd (splitEntryPath filename);
                ext = low (last (split_js dot actualFilename))
            in if arr_includes imageExtensions ext
               then (if List.find (\<lambda>img. name img = actualFilename) (allImages st) \<noteq> None
                        \<and> \<not> overwrite
                     then (stats\<lparr>skippedFiles := skippedFiles stats + 1\<rparr>, st)
                     else (let blob = \<lparr>file_name = actualFilename,
                                       file_data = ascii ''data:image/'' @ ext @
                                                   ascii '';base64,'' @ base64 zipEntry\<rparr>;
                               st = snd (saveImage ok now blob (if cat \<noteq> [] then cat else cat_all) st)
                           in (stats\<lparr>importedFiles := importedFiles stats + 1\<rparr>, st)))
               else (stats, st)))"

definition ascii_lower :: "jsstring \<Rightarrow> jsstring" where
  "ascii_lower s = map (\<lambda>c. if 65 \<le> c \<and> c \<le> 90 then c + 32 else c) s"

section \<open>The category directory\<close>

text \<open>The array \<open>allCategories\<close> that \<open>renderCategories\<close> renders as the category list.\<close>

definition renderCategories_allCategories :: "state \<Rightarrow> jsval list" where
  "renderCategories_allCategories st =
     (let emptyCategoryRecords =
            map category (filter (\<lambda>img. isEmptyCategory img \<and> startsWith (name img) EMPTY_IMAGE)
                            (allImages st));
          realCategories = map category (filter (\<lambda>img. \<not> isEmptyCategory img) (allImages st));
          allCategories =
            filter (\<lambda>cat. cat \<noteq> Undefined \<and> cat \<noteq> Str [] \<and> cat \<noteq> Str cat_all \<and> cat \<noteq> Str cat_whole)
              (uniq (emptyCategoryRecords @ realCategories));
          allCategories =
            (if \<not> arr_includes allCategories (Str cat_other)
             then allCategories @ [Str cat_other]
             else allCategories)
      in sort_default allCategories)"

text \<open>
  \<open>renameCategory(oldName, newName)\<close>: two checks against the snapshot, then one
  cursor scan over the store, then a reload. The second branch of the scan repeats the
  condition of the first.
\<close>

definition renameCategory_step :: "jsstring \<Rightarrow> jsstring \<Rightarrow> image \<Rightarrow> image" where
  "renameCategory_step oldName newName v =
     (if category v = Str oldName then v\<lparr>category := Str newName\<rparr>
      else if isEmptyCategory v \<and> category v = Str oldName
           then v\<lparr>category := Str newName, name := EMPTY_IMAGE @ newName\<rparr>
      else v)"

definition renameCategory :: "jsstring \<Rightarrow> jsstring \<Rightarrow> state \<Rightarrow> toast \<times> state" where
  "renameCategory oldName newName st =
     (if newName = cat_whole \<or> newName = cat_other then (Toast_reserved, st)
      else (let existingCategories = uniq (filter truthy (map category (allImages st)))
            in if arr_includes existingCategories (Str newName) then (Toast_exists, st)
               else (Toast_renamed,
                     loadImages (st\<lparr>db := map (renameCategory_step oldName newName) (db st)\<rparr>))))"

text \<open>
  \<open>deleteCategory(name)\<close>: the cursor deletes the sentinels of the category and sets
  the category of its other records to \<open>null\<close>.
\<close>

fun deleteCategory_scan :: "jsstring \<Rightarrow> image list \<Rightarrow> image list" where
  "deleteCategory_scan nm [] = []"
| "deleteCategory_scan nm (v # vs) =
     (if category v = Str nm
      then (if isEmptyCategory v then deleteCategory_scan nm vs
            else v\<lparr>category := Null\<rparr> # deleteCategory_scan nm vs)
      else v # deleteCategory_scan nm vs)"

definition deleteCategory :: "jsstring \<Rightarrow> state \<Rightarrow> toast \<times> state" where
  "deleteCategory nm st =
     (Toast_deleted, loadImages (st\<lparr>db := deleteCategory_scan nm (db st)\<rparr>))"

section \<open>Concrete records and states\<close>

definition mkImage :: "nat \<Rightarrow> jsstring \<Rightarrow> jsval \<Rightarrow> jsstring list \<Rightarrow> image" where
  "mkImage i nm cat ts =
     \<lparr>id' = Some i, name = nm, category = cat, tags = Some ts,
      data = ascii ''data:image/png;base64,AA=='', date = ascii ''2024/1/1'',
      isEmptyCategory = False\<rparr>"

definition mkSentinel :: "nat \<Rightarrow> jsstring \<Rightarrow> image" where
  "mkSentinel i cat =
     \<lparr>id' = Some i, name = EMPTY_IMAGE @ cat, category = Str cat, tags = Some [],
      data = [], date = ascii ''2024/1/1'', isEmptyCategory = True\<rparr>"

definition mkState :: "image list \<Rightarrow> state" where
  "mkState imgs =
     \<lparr>db = imgs, nextKey = Suc (length imgs), allImages = imgs, selectedIds = {},
      currentFilter = cat_all, currentTagFilters = [], currentModeFilter = mode_ALL\<rparr>"

definition exampleImages :: "image list" where
  "exampleImages =
     [mkImage 1 (ascii ''x_DSC.jpg'') (Str (ascii ''Lab'')) [ascii ''PBT''],
      mkSentinel 2 (ascii ''Empty''),
      mkImage 3 (ascii ''y_TGA.png'') Null []]"

text \<open>
  The scenario of the specification: category \<open>Lab\<close>, tag \<open>PBT\<close>, mode \<open>DSC\<close>, with
  the uncategorised record 3 selected beforehand.
\<close>

definition labState :: state where
  "labState =
     (mkState exampleImages)
       \<lparr>selectedIds := {3}, currentFilter := ascii ''Lab'',
        currentTagFilters := [ascii ''PBT''], currentModeFilter := mode_DSC\<rparr>"

text \<open>Every category shown, one tag filter set, every mode shown.\<close>

definition tagState :: state where
  "tagState = (mkState exampleImages)\<lparr>currentTagFilters := [ascii ''PBT'']\<rparr>"

text \<open>A store whose only record is the sentinel of category \<open>A\<close>.\<close>

definition sentinelState :: state where
  "sentinelState = mkState [mkSentinel 1 (ascii ''A'')]"

text \<open>A category whose first code unit is above that of the fallback category (U+56FE U+7247).\<close>

definition cat_picture :: jsstring where
  "cat_picture = [0x56FE, 0x7247]"

definition pictureState :: state where
  "pictureState = mkState [mkImage 1 (ascii ''a.png'') (Str cat_picture) []]"

text \<open>An archive entry with a small payload, and the counters at the start of an import.\<close>

definition pngEntry :: zipEntry where
  "pngEntry = \<lparr>dir = False, base64 = ascii ''AA==''\<rparr>"

definition noStats :: importStats where
  "noStats = \<lparr>totalFiles = 0, importedFiles = 0, skippedFiles = 0\<rparr>"

section \<open>Properties of the filters\<close>

lemmas string_defs = ascii_def cat_all_def cat_other_def cat_whole_def EMPTY_IMAGE_def
  mode_DSC_def mode_TGA_def mode_ALL_def dot_def slash_def

lemmas example_defs = mkImage_def mkSentinel_def mkState_def exampleImages_def labState_def

lemma labState_filtered:
  "renderGallery_filtered ascii_upper labState =
     [mkImage 1 (ascii ''x_DSC.jpg'') (Str (ascii ''Lab'')) [ascii ''PBT'']]"
  by (simp add: renderGallery_filtered_def example_defs hasAllTags_def arr_includes_def
      hasSuffix_def removeFileExtension_def endsWith_def ascii_upper_def string_defs)

lemma set_renderGallery_filtered:
  "set (renderGallery_filtered up st) \<subseteq> {img \<in> set (allImages st). \<not> isEmptyCategory img}"
  by (auto simp: renderGallery_filtered_def Let_def split: if_splits)

lemma set_selectAllVisible_visible:
  "set (selectAllVisible_visible up st) \<subseteq> {img \<in> set (allImages st). \<not> isEmptyCategory img}"
  by (auto simp: selectAllVisible_visible_def Let_def split: if_splits)

lemma selectAllVisible_visible_eq:
  "selectAllVisible_visible up st = renderGallery_filtered up st"
  by (simp add: selectAllVisible_visible_def renderGallery_filtered_def)

text \<open>
  C1. Whatever the category filter, the tag filters and the mode filter are, neither the
  list that \<open>renderGallery\<close> shows nor the list that \<open>selectAllVisible\<close> selects holds a
  sentinel record.
\<close>

theorem visible_excludes_sentinels:
  "(\<forall>img \<in> set (renderGallery_filtered up st). \<not> isEmptyCategory img) \<and>
   (\<forall>img \<in> set (selectAllVisible_visible up st). \<not> isEmptyCategory img)"
  using set_renderGallery_filtered [of up st] set_selectAllVisible_visible [of up st]
  by blast

theorem visible_excludes_sentinels_witness:
  "mkSentinel 2 (ascii ''Empty'') \<in> set (allImages labState) \<and>
   isEmptyCategory (mkSentinel 2 (ascii ''Empty'')) \<and>
   mkImage 1 (ascii ''x_DSC.jpg'') (Str (ascii ''Lab'')) [ascii ''PBT'']
     \<in> set (renderGallery_filtered ascii_upper labState) \<and>
   \<not> isEmptyCategory (mkImage 1 (ascii ''x_DSC.jpg'') (Str (ascii ''Lab'')) [ascii ''PBT'']) \<and>
   mkSentinel 2 (ascii ''Empty'') \<notin> set (renderGallery_filtered ascii_upper labState) \<and>
   mkSentinel 2 (ascii ''Empty'') \<notin> set (selectAllVisible_visible ascii_upper labState)"
proof -
  let ?img = "mkImage 1 (ascii ''x_DSC.jpg'') (Str (ascii ''Lab'')) [ascii ''PBT'']"
  let ?s = "mkSentinel 2 (ascii ''Empty'')"
  have a: "?s \<in> set (allImages labState)"
    by (simp add: labState_def mkState_def exampleImages_def)
  have b: "isEmptyCategory ?s"
    by (simp add: mkSentinel_def)
  have c: "?img \<in> set (renderGallery_filtered ascii_upper labState)"
    by (simp only: labState_filtered) simp
  from visible_excludes_sentinels [of ascii_upper labState] a b c show ?thesis
    by blast
qed

section \<open>Mode filter and selection\<close>

text \<open>
  C7. \<open>toggleModeFilter\<close> sends \<open>DSC\<close> to \<open>TGA\<close>, \<open>TGA\<close> to \<open>ALL\<close> and \<open>ALL\<close> to
  \<open>DSC\<close>; from any of the three values, three toggles give back the state they started
  from.
\<close>

theorem toggleModeFilter_cycle:
  assumes "currentModeFilter st \<in> {mode_DSC, mode_TGA, mode_ALL}"
  shows "toggleModeFilter (toggleModeFilter (toggleModeFilter st)) = st \<and>
         currentModeFilter (toggleModeFilter (st\<lparr>currentModeFilter := mode_DSC\<rparr>)) = mode_TGA \<and>
         currentModeFilter (toggleModeFilter (st\<lparr>currentModeFilter := mode_TGA\<rparr>)) = mode_ALL \<and>
         currentModeFilter (toggleModeFilter (st\<lparr>currentModeFilter := mode_ALL\<rparr>)) = mode_DSC"
  using assms by (auto simp: toggleModeFilter_def string_defs)

theorem toggleModeFilter_cycle_witness:
  "currentModeFilter labState \<in> {mode_DSC, mode_TGA, mode_ALL} \<and>
   currentModeFilter (toggleModeFilter labState) = mode_TGA \<and>
   currentModeFilter (toggleModeFilter (toggleModeFilter labState)) = mode_ALL \<and>
   toggleModeFilter (toggleModeFilter (toggleModeFilter labState)) = labState"
  using toggleModeFilter_cycle [of labState]
  by (simp add: toggleModeFilter_def labState_def string_defs)

text \<open>
  C9. After \<open>clearSelection\<close> the selection holds no id at all, whatever the filters
  show or hide; nothing else of the state changes.
\<close>

theorem clearSelection_empties:
  "selectedIds (clearSelection st) = {} \<and> i \<notin> selectedIds (clearSelection st) \<and>
   clearSelection st = st\<lparr>selectedIds := {}\<rparr>"
  by (simp add: clearSelection_def)

lemma idsOf_Nil: "idsOf [] = {}"
  by (simp add: idsOf_def)

lemma idsOf_Cons: "idsOf (img # imgs) = (case id' img of None \<Rightarrow> idsOf imgs | Some i \<Rightarrow> insert i (idsOf imgs))"
  by (auto simp: idsOf_def split: option.splits)

lemma fold_addIfId: "fold addIfId imgs s = s \<union> idsOf imgs"
  by (induction imgs arbitrary: s) (auto simp: idsOf_Nil idsOf_Cons addIfId_def split: option.splits)

lemma selectAllVisible_visible_selection:
  "selectAllVisible_visible up (st\<lparr>selectedIds := s\<rparr>) = selectAllVisible_visible up st"
  by (simp add: selectAllVisible_visible_def Let_def)

text \<open>
  C8. After \<open>selectAllVisible\<close> every id of the visible list is selected, the ids that
  were selected before still are (the new selection is the old one joined with the visible
  ids), and a second call changes nothing.
\<close>

theorem selectAllVisible_covers_visible:
  "idsOf (selectAllVisible_visible up (selectAllVisible up st)) \<inter> selectedIds (selectAllVisible up st)
     = idsOf (selectAllVisible_visible up (selectAllVisible up st)) \<and>
   selectedIds (selectAllVisible up st) = selectedIds st \<union> idsOf (selectAllVisible_visible up st) \<and>
   selectedIds st \<subseteq> selectedIds (selectAllVisible up st) \<and>
   selectAllVisible up (selectAllVisible up st) = selectAllVisible up st"
  by (auto simp: selectAllVisible_def fold_addIfId selectAllVisible_visible_selection)

theorem selectAllVisible_covers_visible_witness:
  "selectedIds labState = {3} \<and>
   idsOf (selectAllVisible_visible ascii_upper (selectAllVisible ascii_upper labState)) = {1} \<and>
   selectedIds (selectAllVisible ascii_upper labState) = {1, 3} \<and>
   idsOf (selectAllVisible_visible ascii_upper (selectAllVisible ascii_upper labState))
     \<inter> selectedIds (selectAllVisible ascii_upper labState) = {1} \<and>
   selectAllVisible ascii_upper (selectAllVisible ascii_upper labState)
     = selectAllVisible ascii_upper labState"
proof -
  let ?img = "mkImage 1 (ascii ''x_DSC.jpg'') (Str (ascii ''Lab'')) [ascii ''PBT'']"
  have v: "selectAllVisible_visible ascii_upper labState = [?img]"
    by (simp only: selectAllVisible_visible_eq labState_filtered)
  have v': "selectAllVisible_visible ascii_upper (selectAllVisible ascii_upper labState) = [?img]"
    by (simp only: selectAllVisible_def selectAllVisible_visible_selection v)
  have s: "selectedIds labState = {3}"
    by (simp add: labState_def)
  have i: "idsOf [?img] = {1}"
    by (simp add: idsOf_Cons idsOf_Nil mkImage_def)
  from selectAllVisible_covers_visible [of ascii_upper labState]
  have "selectedIds (selectAllVisible ascii_upper labState) = {3} \<union> {1}"
    and "selectAllVisible ascii_upper (selectAllVisible ascii_upper labState)
           = selectAllVisible ascii_upper labState"
    by (simp_all only: v s i)
  then show ?thesis
    by (auto simp only: v' s i)
qed

section \<open>The select-all toggle\<close>

lemma some_iff: "some p xs \<longleftrightarrow> (\<exists>x \<in> set xs. p x)"
  by (induction xs) auto

lemma arr_includes_iff: "arr_includes xs x \<longleftrightarrow> x \<in> set xs"
  by (auto simp: arr_includes_def some_iff)

lemma fold_addIfNotSelected: "fold addIfNotSelected imgs s = s \<union> idsOf imgs"
  by (induction imgs arbitrary: s)
    (auto simp: idsOf_Nil idsOf_Cons addIfNotSelected_def split: option.splits)

lemma fold_deleteIfSelected: "fold deleteIfSelected imgs s = s - idsOf imgs"
  by (induction imgs arbitrary: s)
    (auto simp: idsOf_Nil idsOf_Cons deleteIfSelected_def split: option.splits)

lemma idsOf_member: "img \<in> set imgs \<Longrightarrow> id' img = Some i \<Longrightarrow> i \<in> idsOf imgs"
  by (force simp: idsOf_def)

lemma toggleSelectAll_visible_all:
  "currentFilter st = cat_all \<Longrightarrow>
   toggleSelectAll_visible up st =
     (if currentModeFilter st \<noteq> [] \<and> currentModeFilter st \<noteq> mode_ALL
      then filter (\<lambda>img. hasSuffix up (name img) (currentModeFilter st))
             (filter (\<lambda>img. \<not> isEmptyCategory img) (allImages st))
      else filter (\<lambda>img. \<not> isEmptyCategory img) (allImages st))"
  by (simp add: toggleSelectAll_visible_def Let_def)

lemma selectAllVisible_visible_all:
  "currentFilter st = cat_all \<Longrightarrow> currentTagFilters st \<noteq> [] \<Longrightarrow>
   selectAllVisible_visible up st =
     (if currentModeFilter st \<noteq> [] \<and> currentModeFilter st \<noteq> mode_ALL
      then filter (\<lambda>img. hasSuffix up (name img) (currentModeFilter st))
             (filter (hasAllTags (currentTagFilters st))
               (filter (\<lambda>img. \<not> isEmptyCategory img) (allImages st)))
      else filter (hasAllTags (currentTagFilters st))
             (filter (\<lambda>img. \<not> isEmptyCategory img) (allImages st)))"
  by (simp add: selectAllVisible_visible_def Let_def)

text \<open>
  C10. With the category filter at \<open>'all'\<close>, \<open>toggleSelectAll\<close> does not look at the
  tag filters: its visible list is the one it would compute with no tag filter set. A real
  record that passes the mode filter but lacks a filter tag is therefore in the list that
  \<open>toggleSelectAll\<close> counts and selects or deselects (its id is selected afterwards
  exactly if the call took the select-all branch), while it is in neither the list of
  \<open>selectAllVisible\<close> nor that of \<open>renderGallery\<close>.
\<close>

theorem toggleSelectAll_ignores_tags_under_all:
  assumes "currentFilter st = cat_all"
    and "currentTagFilters st \<noteq> []"
    and "img \<in> set (allImages st)"
    and "\<not> isEmptyCategory img"
    and "currentModeFilter st = [] \<or> currentModeFilter st = mode_ALL
           \<or> hasSuffix up (name img) (currentModeFilter st)"
    and "\<not> hasAllTags (currentTagFilters st) img"
    and "id' img = Some i"
  shows "toggleSelectAll_visible up st = toggleSelectAll_visible up (st\<lparr>currentTagFilters := []\<rparr>) \<and>
         img \<in> set (toggleSelectAll_visible up st) \<and>
         img \<notin> set (selectAllVisible_visible up st) \<and>
         img \<notin> set (renderGallery_filtered up st) \<and>
         (i \<in> selectedIds (toggleSelectAll up st) \<longleftrightarrow> \<not> toggleSelectAll_isFull up st)"
proof -
  have same: "toggleSelectAll_visible up st = toggleSelectAll_visible up (st\<lparr>currentTagFilters := []\<rparr>)"
    using assms(1) by (simp add: toggleSelectAll_visible_all)
  have inT: "img \<in> set (toggleSelectAll_visible up st)"
    using assms(1,3,4,5) by (auto simp: toggleSelectAll_visible_all)
  have notS: "img \<notin> set (selectAllVisible_visible up st)"
    using assms(1,2,6) by (auto simp: selectAllVisible_visible_all)
  then have notR: "img \<notin> set (renderGallery_filtered up st)"
    by (simp add: selectAllVisible_visible_eq)
  have i: "i \<in> idsOf (toggleSelectAll_visible up st)"
    using inT assms(7) by (rule idsOf_member)
  have sel: "i \<in> selectedIds (toggleSelectAll up st) \<longleftrightarrow> \<not> toggleSelectAll_isFull up st"
    using i by (simp add: toggleSelectAll_def Let_def fold_addIfNotSelected fold_deleteIfSelected)
  from same inT notS notR sel show ?thesis by blast
qed

lemma tagState_toggle_visible:
  "toggleSelectAll_visible ascii_upper tagState =
     [mkImage 1 (ascii ''x_DSC.jpg'') (Str (ascii ''Lab'')) [ascii ''PBT''],
      mkImage 3 (ascii ''y_TGA.png'') Null []]"
  by (simp add: toggleSelectAll_visible_def tagState_def example_defs string_defs)

lemma tagState_not_full: "\<not> toggleSelectAll_isFull ascii_upper tagState"
  by (simp add: toggleSelectAll_isFull_def tagState_toggle_visible Let_def)
    (simp add: tagState_def example_defs)

theorem toggleSelectAll_ignores_tags_under_all_witness:
  "currentFilter tagState = cat_all \<and> currentTagFilters tagState = [ascii ''PBT''] \<and>
   \<not> hasAllTags (currentTagFilters tagState) (mkImage 3 (ascii ''y_TGA.png'') Null []) \<and>
   mkImage 3 (ascii ''y_TGA.png'') Null [] \<in> set (toggleSelectAll_visible ascii_upper tagState) \<and>
   mkImage 3 (ascii ''y_TGA.png'') Null [] \<notin> set (selectAllVisible_visible ascii_upper tagState) \<and>
   mkImage 3 (ascii ''y_TGA.png'') Null [] \<notin> set (renderGallery_filtered ascii_upper tagState) \<and>
   3 \<in> selectedIds (toggleSelectAll ascii_upper tagState)"
proof -
  let ?img = "mkImage 3 (ascii ''y_TGA.png'') Null []"
  have h1: "currentFilter tagState = cat_all"
    by (simp add: tagState_def mkState_def)
  have h2: "currentTagFilters tagState = [ascii ''PBT'']"
    by (simp add: tagState_def mkState_def)
  have h3: "?img \<in> set (allImages tagState)"
    by (simp add: tagState_def mkState_def exampleImages_def)
  have h4: "\<not> isEmptyCategory ?img"
    by (simp add: mkImage_def)
  have h5: "currentModeFilter tagState = [] \<or> currentModeFilter tagState = mode_ALL
              \<or> hasSuffix ascii_upper (name ?img) (currentModeFilter tagState)"
    by (simp add: tagState_def mkState_def)
  have h6: "\<not> hasAllTags (currentTagFilters tagState) ?img"
    by (simp add: hasAllTags_def mkImage_def)
  have h7: "id' ?img = Some 3"
    by (simp add: mkImage_def)
  have h2': "currentTagFilters tagState \<noteq> []"
    by (simp add: h2)
  from toggleSelectAll_ignores_tags_under_all [OF h1 h2' h3 h4 h5 h6 h7] h2 h6 h1 tagState_not_full
  show ?thesis by blast
qed

section \<open>The duplicate-name check\<close>

text \<open>
  C2, as the specification words it, fails: \<open>checkDuplicateImage\<close> does not look at
  \<open>isEmptyCategory\<close>. The example snapshot holds the sentinel of category \<open>Empty\<close>;
  its name is reported as a duplicate although no real record has it.
\<close>

theorem checkDuplicateImage_counts_sentinel:
  "checkDuplicateImage (mkState exampleImages) (EMPTY_IMAGE @ ascii ''Empty'') \<and>
   \<not> existsByName_spec (mkState exampleImages) (EMPTY_IMAGE @ ascii ''Empty'')"
  by (simp add: checkDuplicateImage_def existsByName_spec_def example_defs string_defs)

text \<open>
  C2, amended. \<open>checkDuplicateImage\<close> is true exactly if some record of the snapshot,
  sentinel or not, has the file's name.
\<close>

theorem checkDuplicateImage_any_record:
  "checkDuplicateImage st fileName \<longleftrightarrow> (\<exists>img \<in> set (allImages st). name img = fileName)"
  by (simp add: checkDuplicateImage_def some_iff)

theorem checkDuplicateImage_any_record_witness:
  "(\<exists>img \<in> set (allImages (mkState exampleImages)). name img = ascii ''y_TGA.png'') \<and>
   checkDuplicateImage (mkState exampleImages) (ascii ''y_TGA.png'') \<and>
   \<not> checkDuplicateImage (mkState exampleImages) (ascii ''z.png'')"
  using checkDuplicateImage_any_record [of "mkState exampleImages" "ascii ''y_TGA.png''"]
    checkDuplicateImage_any_record [of "mkState exampleImages" "ascii ''z.png''"]
  by (simp add: example_defs string_defs)

section \<open>Deleting and renaming a category\<close>

lemma deleteCategory_scan_real:
  "filter (\<lambda>v. \<not> isEmptyCategory v) (deleteCategory_scan nm vs) =
     map (\<lambda>v. if category v = Str nm then v\<lparr>category := Null\<rparr> else v)
       (filter (\<lambda>v. \<not> isEmptyCategory v) vs)"
  by (induction vs) simp_all

lemma deleteCategory_scan_sentinel:
  "filter isEmptyCategory (deleteCategory_scan nm vs) =
     filter (\<lambda>v. isEmptyCategory v \<and> category v \<noteq> Str nm) vs"
  by (induction vs) simp_all

text \<open>
  C5. \<open>deleteCategory(A)\<close> keeps every real record of the store, in order, with the
  category set to \<open>null\<close> where it was \<open>A\<close> and the record untouched otherwise; of the
  sentinels it keeps exactly those of other categories, untouched; the snapshot then is
  the new content of the store.
\<close>

theorem deleteCategory_effect:
  "filter (\<lambda>v. \<not> isEmptyCategory v) (db (snd (deleteCategory A st))) =
     map (\<lambda>v. if category v = Str A then v\<lparr>category := Null\<rparr> else v)
       (filter (\<lambda>v. \<not> isEmptyCategory v) (db st)) \<and>
   filter isEmptyCategory (db (snd (deleteCategory A st))) =
     filter (\<lambda>v. isEmptyCategory v \<and> category v \<noteq> Str A) (db st) \<and>
   allImages (snd (deleteCategory A st)) = db (snd (deleteCategory A st))"
  by (simp add: deleteCategory_def loadImages_def deleteCategory_scan_real
      deleteCategory_scan_sentinel)

theorem deleteCategory_effect_witness:
  "db (mkState exampleImages) =
     [mkImage 1 (ascii ''x_DSC.jpg'') (Str (ascii ''Lab'')) [ascii ''PBT''],
      mkSentinel 2 (ascii ''Empty''),
      mkImage 3 (ascii ''y_TGA.png'') Null []] \<and>
   filter (\<lambda>v. \<not> isEmptyCategory v) (db (snd (deleteCategory (ascii ''Lab'') (mkState exampleImages)))) =
     [mkImage 1 (ascii ''x_DSC.jpg'') Null [ascii ''PBT''],
      mkImage 3 (ascii ''y_TGA.png'') Null []] \<and>
   filter isEmptyCategory (db (snd (deleteCategory (ascii ''Lab'') (mkState exampleImages)))) =
     [mkSentinel 2 (ascii ''Empty'')] \<and>
   filter isEmptyCategory (db (snd (deleteCategory (ascii ''Empty'') (mkState exampleImages)))) = []"
  using deleteCategory_effect [of "ascii ''Lab''" "mkState exampleImages"]
    deleteCategory_effect [of "ascii ''Empty''" "mkState exampleImages"]
  by (simp add: example_defs string_defs)

lemma set_uniq: "set (uniq xs) = set xs"
  by (induction xs rule: uniq.induct) auto

lemma distinct_uniq: "distinct (uniq xs)"
  by (induction xs rule: uniq.induct) (auto simp: set_uniq)

lemma existingCategories_includes:
  "arr_includes (uniq (filter truthy (map category imgs))) (Str nm) \<longleftrightarrow>
     nm \<noteq> [] \<and> (\<exists>img \<in> set imgs. category img = Str nm)"
  by (auto simp: arr_includes_iff set_uniq) (metis image_eqI)

text \<open>
  What \<open>renameCategory\<close> does apart from the sentinel's name: a reserved or taken new
  name leaves the state as it is; otherwise the scan rewrites the category of every record
  of the old category and reloads the snapshot. No branch of the scan changes a name.
\<close>

lemma renameCategory_rejected:
  assumes "newName = cat_whole \<or> newName = cat_other \<or>
           (newName \<noteq> [] \<and> (\<exists>img \<in> set (allImages st). category img = Str newName))"
  shows "snd (renameCategory oldName newName st) = st"
    and "fst (renameCategory oldName newName st) \<in> {Toast_reserved, Toast_exists}"
  using assms by (auto simp: renameCategory_def Let_def existingCategories_includes)

lemma renameCategory_accepted:
  assumes "newName \<noteq> cat_whole" and "newName \<noteq> cat_other"
    and "newName = [] \<or> (\<forall>img \<in> set (allImages st). category img \<noteq> Str newName)"
  shows "db (snd (renameCategory oldName newName st)) =
           map (\<lambda>v. if category v = Str oldName then v\<lparr>category := Str newName\<rparr> else v) (db st)"
    and "allImages (snd (renameCategory oldName newName st)) =
           db (snd (renameCategory oldName newName st))"
    and "fst (renameCategory oldName newName st) = Toast_renamed"
  using assms
  by (auto simp: renameCategory_def Let_def existingCategories_includes loadImages_def
      renameCategory_step_def)

lemma renameCategory_step_name: "name (renameCategory_step oldName newName v) = name v"
  by (simp add: renameCategory_step_def)

lemma renameCategory_names:
  "map name (db (snd (renameCategory oldName newName st))) = map name (db st)"
  by (simp add: renameCategory_def Let_def loadImages_def renameCategory_step_name)

text \<open>
  C6, at the store that holds only the sentinel of category \<open>A\<close>: renaming \<open>A\<close> to \<open>B\<close>
  is accepted and rewrites the sentinel's category, but the sentinel keeps the name built
  from \<open>A\<close>; the branch that would rebuild the name is never taken.
\<close>

theorem renameCategory_sentinel_name_stale:
  "fst (renameCategory (ascii ''A'') (ascii ''B'') sentinelState) = Toast_renamed \<and>
   db (snd (renameCategory (ascii ''A'') (ascii ''B'') sentinelState)) =
     [(mkSentinel 1 (ascii ''A''))\<lparr>category := Str (ascii ''B'')\<rparr>] \<and>
   map name (db (snd (renameCategory (ascii ''A'') (ascii ''B'') sentinelState))) =
     [EMPTY_IMAGE @ ascii ''A''] \<and>
   EMPTY_IMAGE @ ascii ''A'' \<noteq> EMPTY_IMAGE @ ascii ''B''"
  by (simp add: renameCategory_def renameCategory_step_def arr_includes_def loadImages_def
      sentinelState_def example_defs string_defs)

section \<open>The category list\<close>

lemma sort_default_no_undefined:
  "Undefined \<notin> set xs \<Longrightarrow> sort_default xs = sort_key toString xs"
proof -
  assume u: "Undefined \<notin> set xs"
  then have "filter (\<lambda>v. v \<noteq> Undefined) xs = xs"
    by (induction xs) auto
  moreover from u have "filter (\<lambda>v. v = Undefined) xs = []"
    by (induction xs) auto
  ultimately show ?thesis
    by (simp add: sort_default_def)
qed

text \<open>
  What the list of \<open>renderCategories\<close> holds: the categories of the real records and of
  the sentinels with the marker prefix, without \<open>undefined\<close>, \<open>''\<close>, \<open>'all'\<close> and the
  label of the static button, and the fallback category; no entry twice; in the order of
  the code units of the entries.
\<close>

lemma renderCategories_allCategories_set:
  "set (renderCategories_allCategories st) =
     ({category img | img. img \<in> set (allImages st) \<and>
                           (isEmptyCategory img \<longrightarrow> startsWith (name img) EMPTY_IMAGE)}
        - {Undefined, Str [], Str cat_all, Str cat_whole})
     \<union> {Str cat_other}"
proof -
  have "Undefined \<notin> set (filter (\<lambda>cat. cat \<noteq> Undefined \<and> P cat) xs)" for P and xs :: "jsval list"
    by simp
  then show ?thesis
    by (auto simp: renderCategories_allCategories_def Let_def arr_includes_iff set_uniq
        sort_default_no_undefined)
qed

lemma renderCategories_allCategories_distinct:
  "distinct (renderCategories_allCategories st)"
  by (simp add: renderCategories_allCategories_def Let_def arr_includes_iff distinct_uniq
      sort_default_no_undefined)

lemma renderCategories_allCategories_sorted:
  "sorted (map toString (renderCategories_allCategories st))"
  by (simp add: renderCategories_allCategories_def Let_def arr_includes_iff
      sort_default_no_undefined)

text \<open>
  C4, at a snapshot whose only record is a real image of category U+56FE U+7247: the
  fallback category comes first in the list, not last.
\<close>

theorem renderCategories_other_not_last:
  "renderCategories_allCategories pictureState = [Str cat_other, Str cat_picture] \<and>
   last (renderCategories_allCategories pictureState) \<noteq> Str cat_other"
  by (simp add: renderCategories_allCategories_def sort_default_def arr_includes_def
      pictureState_def cat_picture_def example_defs string_defs)

section \<open>Importing an archive entry\<close>

lemma split_js_not_Nil: "split_js sep s \<noteq> []"
  by (induction s) (auto split: list.splits)

lemma split_js_no_sep: "sep \<notin> set s \<Longrightarrow> split_js sep s = [s]"
  by (induction s) auto

lemma split_js_first: "sep \<notin> set p \<Longrightarrow> split_js sep (p @ sep # rest) = p # split_js sep rest"
  by (induction p) (auto split: list.splits)

lemma join_js_Cons: "join_js sep ((c # p) # ps) = c # join_js sep (p # ps)"
  by (cases ps) auto

lemma join_js_split_js: "join_js sep (split_js sep s) = s"
proof (induction s)
  case Nil
  then show ?case by simp
next
  case (Cons c cs)
  obtain p ps where ps: "split_js sep cs = p # ps"
    using split_js_not_Nil [of sep cs] by (cases "split_js sep cs") auto
  with Cons show ?case
    by (auto simp: join_js_Cons)
qed

lemma splitEntryPath_flat:
  "slash \<notin> set filename \<Longrightarrow> splitEntryPath filename = ([], filename)"
  by (simp add: splitEntryPath_def split_js_no_sep)

lemma splitEntryPath_nested:
  assumes "slash \<in> set filename"
  shows "splitEntryPath filename =
           (takeWhile (\<lambda>c. c \<noteq> slash) filename, tl (dropWhile (\<lambda>c. c \<noteq> slash) filename))"
proof -
  let ?p = "takeWhile (\<lambda>c. c \<noteq> slash) filename"
  let ?d = "dropWhile (\<lambda>c. c \<noteq> slash) filename"
  from assms have "?d \<noteq> []" by simp
  moreover have "hd ?d = slash"
    using assms hd_dropWhile [of "\<lambda>c. c \<noteq> slash" filename] by auto
  ultimately have d: "?d = slash # tl ?d"
    by (cases ?d) auto
  have "filename = ?p @ ?d" by simp
  with d have f: "filename = ?p @ slash # tl ?d" by simp
  have np: "slash \<notin> set ?p"
    by (auto dest: set_takeWhileD)
  obtain q qs where q: "split_js slash (tl ?d) = q # qs"
    using split_js_not_Nil [of slash "tl ?d"] by (cases "split_js slash (tl ?d)") auto
  have "split_js slash filename = ?p # q # qs"
    using split_js_first [OF np, of "tl ?d"] f q by simp
  moreover have "join_js slash (q # qs) = tl ?d"
    using join_js_split_js [of slash "tl ?d"] q by simp
  ultimately show ?thesis
    by (simp add: splitEntryPath_def)
qed

lemma find_name_None:
  "\<not> checkDuplicateImage st nm \<Longrightarrow> List.find (\<lambda>img. name img = nm) (allImages st) = None"
  by (auto simp: checkDuplicateImage_def some_iff find_None_iff)

text \<open>
  C3, as the specification words it, fails: the entry \<open>a.png\<close>, whose path has no
  separator, is saved with the category \<open>'all'\<close>, which is neither \<open>''\<close> nor \<open>null\<close>.
\<close>

theorem handleZipEntry_flat_entry_category_all:
  "map category
     (db (snd (handleZipEntry ascii_lower False False (ascii ''2024/1/1'')
                 (ascii ''a.png'', pngEntry) (noStats, mkState [])))) = [Str cat_all] \<and>
   Str cat_all \<noteq> Str [] \<and> Str cat_all \<noteq> Null \<and> Str cat_all \<noteq> Undefined"
  by (simp add: handleZipEntry_def splitEntryPath_def saveImage_def checkDuplicateImage_def
      loadImages_def arr_includes_def imageExtensions_def ascii_lower_def pngEntry_def
      noStats_def mkState_def string_defs Let_def)

text \<open>
  C3, amended. An entry that is not a folder and not \<open>tags.json\<close>, with an allowed
  image extension and a file name that no record of the snapshot has, adds one record to
  the store. Its name is the path after the first separator (the whole path if there is
  none); its category is the first path segment if the path has a separator and that
  segment is not empty, and the string \<open>'all'\<close> otherwise.
\<close>

theorem handleZipEntry_category:
  assumes "\<not> dir zipEntry" and "filename \<noteq> ascii ''tags.json''"
    and "arr_includes imageExtensions (low (last (split_js dot (snd (splitEntryPath filename)))))"
    and "\<not> checkDuplicateImage st (snd (splitEntryPath filename))"
  shows "db (snd (handleZipEntry low overwrite ok now (filename, zipEntry) (stats, st))) =
           db st @
           [\<lparr>id' = Some (nextKey st),
             name = (if slash \<in> set filename
                     then tl (dropWhile (\<lambda>c. c \<noteq> slash) filename) else filename),
             category = Str (if slash \<in> set filename \<and> takeWhile (\<lambda>c. c \<noteq> slash) filename \<noteq> []
                             then takeWhile (\<lambda>c. c \<noteq> slash) filename else cat_all),
             tags = Some [],
             data = ascii ''data:image/'' @ low (last (split_js dot (snd (splitEntryPath filename))))
                      @ ascii '';base64,'' @ base64 zipEntry,
             date = now, isEmptyCategory = False\<rparr>]"
proof (cases "slash \<in> set filename")
  case True
  note sp = splitEntryPath_nested [OF True]
  from assms(4) have "List.find (\<lambda>img. name img = snd (splitEntryPath filename)) (allImages st) = None"
    by (rule find_name_None)
  with assms True show ?thesis
    by (simp add: handleZipEntry_def Let_def saveImage_def loadImages_def sp)
next
  case False
  note sp = splitEntryPath_flat [OF False]
  from assms(4) have "List.find (\<lambda>img. name img = snd (splitEntryPath filename)) (allImages st) = None"
    by (rule find_name_None)
  with assms False show ?thesis
    by (simp add: handleZipEntry_def Let_def saveImage_def loadImages_def sp cat_all_def)
qed

theorem handleZipEntry_category_witness:
  "db (snd (handleZipEntry ascii_lower False False (ascii ''2024/1/1'')
              (ascii ''Lab/x.png'', pngEntry) (noStats, mkState exampleImages))) =
     exampleImages @ [mkImage 4 (ascii ''x.png'') (Str (ascii ''Lab'')) []] \<and>
   db (snd (handleZipEntry ascii_lower False False (ascii ''2024/1/1'')
              (ascii ''b.jpg'', pngEntry) (noStats, mkState exampleImages))) =
     exampleImages @
     [(mkImage 4 (ascii ''b.jpg'') (Str cat_all) [])\<lparr>data := ascii ''data:image/jpg;base64,AA==''\<rparr>]"
proof -
  have d: "\<not> dir pngEntry"
    by (simp add: pngEntry_def)
  have sp1: "splitEntryPath (ascii ''Lab/x.png'') = (ascii ''Lab'', ascii ''x.png'')"
    by (simp add: splitEntryPath_def string_defs)
  have sp2: "splitEntryPath (ascii ''b.jpg'') = ([], ascii ''b.jpg'')"
    by (simp add: splitEntryPath_def string_defs)
  have n1: "ascii ''Lab/x.png'' \<noteq> ascii ''tags.json''"
    by (simp add: string_defs)
  have n2: "ascii ''b.jpg'' \<noteq> ascii ''tags.json''"
    by (simp add: string_defs)
  have e1: "ascii_lower (last (split_js dot (ascii ''x.png''))) = ascii ''png''"
    by (simp add: ascii_lower_def string_defs)
  have e2: "ascii_lower (last (split_js dot (ascii ''b.jpg''))) = ascii ''jpg''"
    by (simp add: ascii_lower_def string_defs)
  have x1: "arr_includes imageExtensions
              (ascii_lower (last (split_js dot (snd (splitEntryPath (ascii ''Lab/x.png''))))))"
    by (simp add: sp1 e1) (simp add: arr_includes_def imageExtensions_def string_defs)
  have x2: "arr_includes imageExtensions
              (ascii_lower (last (split_js dot (snd (splitEntryPath (ascii ''b.jpg''))))))"
    by (simp add: sp2 e2) (simp add: arr_includes_def imageExtensions_def string_defs)
  have c1: "\<not> checkDuplicateImage (mkState exampleImages) (snd (splitEntryPath (ascii ''Lab/x.png'')))"
    by (simp add: sp1) (simp add: checkDuplicateImage_def example_defs string_defs)
  have c2: "\<not> checkDuplicateImage (mkState exampleImages) (snd (splitEntryPath (ascii ''b.jpg'')))"
    by (simp add: sp2) (simp add: checkDuplicateImage_def example_defs string_defs)
  have r1: "db (snd (handleZipEntry ascii_lower False False (ascii ''2024/1/1'')
              (ascii ''Lab/x.png'', pngEntry) (noStats, mkState exampleImages))) =
            exampleImages @ [mkImage 4 (ascii ''x.png'') (Str (ascii ''Lab'')) []]"
    using handleZipEntry_category [where low = ascii_lower and overwrite = False and ok = False
        and now = "ascii ''2024/1/1''" and stats = noStats, OF d n1 x1 c1]
    by (simp add: sp1 e1) (simp add: mkState_def mkImage_def exampleImages_def pngEntry_def string_defs)
  have r2: "db (snd (handleZipEntry ascii_lower False False (ascii ''2024/1/1'')
              (ascii ''b.jpg'', pngEntry) (noStats, mkState exampleImages))) =
            exampleImages @
            [(mkImage 4 (ascii ''b.jpg'') (Str cat_all) [])\<lparr>data := ascii ''data:image/jpg;base64,AA==''\<rparr>]"
    using handleZipEntry_category [where low = ascii_lower and overwrite = False and ok = False
        and now = "ascii ''2024/1/1''" and stats = noStats, OF d n2 x2 c2]
    by (simp add: sp2 e2) (simp add: mkState_def mkImage_def exampleImages_def pngEntry_def string_defs)
  from r1 r2 show ?thesis by (rule conjI)
qed

end
